theory Spec2Isabelle
  imports Complex_Main "HOL-Library.Sublist"
begin

section \<open>JavaScript values\<close>

text \<open>
  The three record collections are typed \<^verbatim>\<open>any[]\<close>. A cell read from a CSV file or typed
  into the grid is a string, a cell read from a spreadsheet may be a number, the repairs
  write numbers back, and a column may be absent. A field value is therefore
  \<^verbatim>\<open>undefined\<close>, a string or a number.

  Numbers are the exact rationals extended by \<^verbatim>\<open>NaN\<close> and the two infinities. The
  rounding of IEEE doubles is not modelled, and the two zeros are one value.
\<close>

datatype jsnum = NaN | NInf | Fin rat | PInf

datatype jsval = JUndefined | JStr string | JNum jsnum

datatype js_error = TypeError

text \<open>
  Conversions whose result on an arbitrary string or number is fixed by the language and
  not by this program are parameters of the model: \<^verbatim>\<open>Number(s)\<close> on a string,
  \<^verbatim>\<open>String(n)\<close> on a number, and whether \<^verbatim>\<open>JSON.parse(s)\<close> returns.
\<close>

record builtins =
  StringToNumber :: "string \<Rightarrow> jsnum"
  NumberToString :: "jsnum \<Rightarrow> string"
  JSON_parses :: "string \<Rightarrow> bool"

fun toNumber :: "builtins \<Rightarrow> jsval \<Rightarrow> jsnum" where
  "toNumber B JUndefined = NaN"
| "toNumber B (JStr s) = StringToNumber B s"
| "toNumber B (JNum n) = n"

fun toString :: "builtins \<Rightarrow> jsval \<Rightarrow> string" where
  "toString B JUndefined = ''undefined''"
| "toString B (JStr s) = s"
| "toString B (JNum n) = NumberToString B n"

text \<open>Truthiness, \<^verbatim>\<open>a || b\<close> and \<^verbatim>\<open>a === b\<close>.\<close>

fun truthy :: "jsval \<Rightarrow> bool" where
  "truthy JUndefined = False"
| "truthy (JStr s) = (s \<noteq> [])"
| "truthy (JNum n) = (n \<noteq> NaN \<and> n \<noteq> Fin 0)"

definition js_or :: "jsval \<Rightarrow> jsval \<Rightarrow> jsval" where
  "js_or a b = (if truthy a then a else b)"

definition strict_eq :: "jsval \<Rightarrow> jsval \<Rightarrow> bool" where
  "strict_eq a b = (if a = JNum NaN then False else a = b)"

subsection \<open>Arithmetic on numbers\<close>

fun jneg :: "jsnum \<Rightarrow> jsnum" where
  "jneg NaN = NaN"
| "jneg NInf = PInf"
| "jneg (Fin a) = Fin (- a)"
| "jneg PInf = NInf"

text \<open>\<^verbatim>\<open>a < b\<close>: false as soon as one side is \<^verbatim>\<open>NaN\<close>.\<close>

fun jless :: "jsnum \<Rightarrow> jsnum \<Rightarrow> bool" where
  "jless NaN b = False"
| "jless a NaN = False"
| "jless PInf b = False"
| "jless a NInf = False"
| "jless NInf b = True"
| "jless a PInf = True"
| "jless (Fin a) (Fin b) = (a < b)"

text \<open>\<^verbatim>\<open>a >= b\<close>: false as soon as one side is \<^verbatim>\<open>NaN\<close>.\<close>

definition jge :: "jsnum \<Rightarrow> jsnum \<Rightarrow> bool" where
  "jge a b = (if a = NaN then False else if b = NaN then False else \<not> jless a b)"

definition Math_min :: "jsnum \<Rightarrow> jsnum \<Rightarrow> jsnum" where
  "Math_min a b = (if a = NaN then NaN else if b = NaN then NaN else if jless a b then a else b)"

definition Math_max :: "jsnum \<Rightarrow> jsnum \<Rightarrow> jsnum" where
  "Math_max a b = (if a = NaN then NaN else if b = NaN then NaN else if jless a b then b else a)"

fun jmul :: "jsnum \<Rightarrow> jsnum \<Rightarrow> jsnum" where
  "jmul NaN b = NaN"
| "jmul a NaN = NaN"
| "jmul (Fin a) (Fin b) = Fin (a * b)"
| "jmul (Fin a) b = (if a = 0 then NaN else if 0 < a then b else jneg b)"
| "jmul a (Fin b) = (if b = 0 then NaN else if 0 < b then a else jneg a)"
| "jmul a b = (if a = b then PInf else NInf)"

text \<open>
  Division. A zero divisor counts as the positive zero; the only division of this program
  whose divisor may be zero has the numerator zero (lemma \<open>zero_divisor_zero_numerator\<close>
  below), where the sign does not matter.
\<close>

fun jdiv :: "jsnum \<Rightarrow> jsnum \<Rightarrow> jsnum" where
  "jdiv NaN b = NaN"
| "jdiv a NaN = NaN"
| "jdiv (Fin a) (Fin b) =
     (if b = 0 then (if a = 0 then NaN else if 0 < a then PInf else NInf) else Fin (a / b))"
| "jdiv (Fin a) b = Fin 0"
| "jdiv a (Fin b) = (if 0 \<le> b then a else jneg a)"
| "jdiv a b = NaN"

subsection \<open>Strings\<close>

text \<open>
  A string is a sequence of code units below 256, each the Latin-1 character of that code.
  \<^verbatim>\<open>s.split(',')\<close>, \<^verbatim>\<open>s.trim()\<close>, \<^verbatim>\<open>s.toLowerCase()\<close> and \<^verbatim>\<open>s.includes(t)\<close>
  follow. The white space of the language below 256 is the tab, the line feed, the vertical
  tab, the form feed, the carriage return, the space and the no-break space \<open>0xA0\<close>; its
  upper-case letters below 256 are \<open>A\<close> to \<open>Z\<close> and \<open>0xC0\<close> to \<open>0xDE\<close> without the
  multiplication sign \<open>0xD7\<close>, each 32 below its lower-case letter.
\<close>

fun split :: "string \<Rightarrow> string list" where
  "split [] = [[]]"
| "split (c # cs) =
     (if c = CHR '','' then [] # split cs
      else (case split cs of [] \<Rightarrow> [[c]] | w # ws \<Rightarrow> (c # w) # ws))"

definition is_ws :: "char \<Rightarrow> bool" where
  "is_ws c = (c = CHR '' '' \<or> c = CHR 0x09 \<or> c = CHR 0x0A \<or> c = CHR 0x0B \<or> c = CHR 0x0C
                \<or> c = CHR 0x0D \<or> c = CHR 0xA0)"

definition trim :: "string \<Rightarrow> string" where
  "trim s = rev (dropWhile is_ws (rev (dropWhile is_ws s)))"

definition lower_char :: "char \<Rightarrow> char" where
  "lower_char c =
     (let n = (of_char c :: nat)
      in if 65 \<le> n \<and> n \<le> 90 then char_of (n + 32)
         else if 192 \<le> n \<and> n \<le> 222 \<and> n \<noteq> 215 then char_of (n + 32)
         else c)"

definition toLowerCase :: "string \<Rightarrow> string" where
  "toLowerCase s = map lower_char s"

fun js_includes :: "string \<Rightarrow> string \<Rightarrow> bool" where
  "js_includes [] t = (t = [])"
| "js_includes (c # cs) t = (if prefix t (c # cs) then True else js_includes cs t)"

text \<open>Decimal digits of a natural number, for the template strings.\<close>

fun show_nat :: "nat \<Rightarrow> string" where
  "show_nat n =
     (if n < 10 then [char_of (48 + n)] else show_nat (n div 10) @ [char_of (48 + n mod 10)])"

declare show_nat.simps [simp del]

text \<open>
  \<^verbatim>\<open>parseInt(s)\<close> on a string: leading white space is skipped, a sign is read, a
  \<^verbatim>\<open>0x\<close> prefix selects base 16, and the longest run of digits is the value; no digit
  at all is \<^verbatim>\<open>NaN\<close>.
\<close>

definition digit_val :: "char \<Rightarrow> nat option" where
  "digit_val c =
     (let n = (of_char c :: nat) in
      if 48 \<le> n \<and> n \<le> 57 then Some (n - 48)
      else if 97 \<le> n \<and> n \<le> 102 then Some (n - 87)
      else if 65 \<le> n \<and> n \<le> 70 then Some (n - 55)
      else None)"

definition is_digit :: "nat \<Rightarrow> char \<Rightarrow> bool" where
  "is_digit radix c = (case digit_val c of None \<Rightarrow> False | Some d \<Rightarrow> d < radix)"

definition digits_val :: "nat \<Rightarrow> string \<Rightarrow> nat" where
  "digits_val radix ds = foldl (\<lambda>acc c. acc * radix + (case digit_val c of None \<Rightarrow> 0 | Some d \<Rightarrow> d)) 0 ds"

definition parse_digits :: "nat \<Rightarrow> string \<Rightarrow> int option" where
  "parse_digits radix s =
     (let ds = takeWhile (is_digit radix) s
      in if ds = [] then None else Some (int (digits_val radix ds)))"

definition parse_unsigned :: "string \<Rightarrow> int option" where
  "parse_unsigned s =
     (if prefix ''0x'' s \<or> prefix ''0X'' s then parse_digits 16 (drop 2 s)
      else parse_digits 10 s)"

definition parseInt_str :: "string \<Rightarrow> jsnum" where
  "parseInt_str s =
     (let t = dropWhile is_ws s;
          neg = prefix ''-'' t;
          u = (if prefix ''-'' t \<or> prefix ''+'' t then drop 1 t else t)
      in case parse_unsigned u of
           None \<Rightarrow> NaN
         | Some n \<Rightarrow> Fin (of_int (if neg then - n else n)))"

definition parseInt :: "builtins \<Rightarrow> jsval \<Rightarrow> jsnum" where
  "parseInt B v = parseInt_str (toString B v)"

section \<open>The entity store\<close>

text \<open>
  A record is an object: its own keys in order, each with a value. Reading a key that is
  absent gives \<^verbatim>\<open>undefined\<close>; assigning keeps the position of a key that is present
  and appends a new one.
\<close>

type_synonym row = "(string \<times> jsval) list"

definition get :: "row \<Rightarrow> string \<Rightarrow> jsval" where
  "get r f = (case map_of r f of None \<Rightarrow> JUndefined | Some v \<Rightarrow> v)"

fun put :: "string \<Rightarrow> jsval \<Rightarrow> row \<Rightarrow> row" where
  "put f v [] = [(f, v)]"
| "put f v ((g, w) # r) = (if f = g then (f, v) # r else (g, w) # put f v r)"

record store =
  clients :: "row list"
  workers :: "row list"
  tasks :: "row list"

datatype entityType = Clients | Workers | Tasks

fun rows_of :: "store \<Rightarrow> entityType \<Rightarrow> row list" where
  "rows_of data Clients = clients data"
| "rows_of data Workers = workers data"
| "rows_of data Tasks = tasks data"

fun set_rows :: "store \<Rightarrow> entityType \<Rightarrow> row list \<Rightarrow> store" where
  "set_rows data Clients rs = data\<lparr>clients := rs\<rparr>"
| "set_rows data Workers rs = data\<lparr>workers := rs\<rparr>"
| "set_rows data Tasks rs = data\<lparr>tasks := rs\<rparr>"

fun idField :: "entityType \<Rightarrow> string" where
  "idField Clients = ''ClientID''"
| "idField Workers = ''WorkerID''"
| "idField Tasks = ''TaskID''"

text \<open>\<^verbatim>\<open>item.ClientID || item.WorkerID || item.TaskID\<close>\<close>

definition any_id :: "row \<Rightarrow> jsval" where
  "any_id item = js_or (js_or (get item ''ClientID'') (get item ''WorkerID'')) (get item ''TaskID'')"

definition row_label :: "nat \<Rightarrow> jsval" where
  "row_label index = JStr (''row-'' @ show_nat index)"

section \<open>Validation\<close>

text \<open>
  A \<^verbatim>\<open>ValidationResult\<close>. Its four display strings (\<^verbatim>\<open>id\<close>, \<^verbatim>\<open>message\<close>,
  \<^verbatim>\<open>details\<close>, \<^verbatim>\<open>suggestion\<close>) are built from the other fields and read back by no
  operation; they are left out. The field \<^verbatim>\<open>type\<close> is \<open>severity\<close> here.
\<close>

datatype severity = Error | Warning | Info

record finding =
  severity :: severity
  category :: string
  entityType :: entityType
  entityId :: jsval
  field :: "string option"
  canAutoFix :: bool

text \<open>A method call \<^verbatim>\<open>v.split(',')\<close>: only a string has the method.\<close>

fun call_split :: "jsval \<Rightarrow> js_error + string list" where
  "call_split (JStr s) = Inr (split s)"
| "call_split v = Inl TypeError"

text \<open>A loop whose body may throw: the first exception ends it.\<close>

fun mapE :: "('a \<Rightarrow> js_error + 'b) \<Rightarrow> 'a list \<Rightarrow> js_error + 'b list" where
  "mapE f [] = Inr []"
| "mapE f (x # xs) =
     (case f x of
        Inl e \<Rightarrow> Inl e
      | Inr y \<Rightarrow> (case mapE f xs of Inl e \<Rightarrow> Inl e | Inr ys \<Rightarrow> Inr (y # ys)))"

fun requiredFields :: "entityType \<Rightarrow> string list" where
  "requiredFields Clients = [''ClientID'', ''ClientName'', ''PriorityLevel'']"
| "requiredFields Workers = [''WorkerID'', ''WorkerName'', ''Skills'', ''AvailableSlots'']"
| "requiredFields Tasks = [''TaskID'', ''TaskName'', ''Duration'', ''RequiredSkills'']"

definition validateMissingColumns :: "entityType \<Rightarrow> row list \<Rightarrow> finding list" where
  "validateMissingColumns et items =
     (case items of
        [] \<Rightarrow> []
      | item # rest \<Rightarrow>
          map (\<lambda>f. \<lparr>severity = Error, category = ''Missing Required Column'', entityType = et,
                    entityId = JStr ''structure'', field = Some f, canAutoFix = False\<rparr>)
            (filter (\<lambda>f. f \<notin> set (map fst item)) (requiredFields et)))"

text \<open>The keys of the \<^verbatim>\<open>Map\<close>, in the order of their first insertion.\<close>

fun keys_in_order :: "'a list \<Rightarrow> 'a list" where
  "keys_in_order [] = []"
| "keys_in_order (x # xs) = x # filter (\<lambda>y. y \<noteq> x) (keys_in_order xs)"

definition validateDuplicateIDs :: "entityType \<Rightarrow> row list \<Rightarrow> finding list" where
  "validateDuplicateIDs et items =
     (let ids = filter truthy (map (\<lambda>item. get item (idField et)) items)
      in map (\<lambda>i. \<lparr>severity = Error, category = ''Duplicate ID'', entityType = et,
                    entityId = i, field = Some (idField et), canAutoFix = True\<rparr>)
           (filter (\<lambda>i. 1 < count_list ids i) (keys_in_order ids)))"

definition out_of_range :: "entityType \<Rightarrow> jsval \<Rightarrow> string \<Rightarrow> finding" where
  "out_of_range et eid f =
     \<lparr>severity = Error, category = ''Out-of-range Value'', entityType = et,
      entityId = eid, field = Some f, canAutoFix = True\<rparr>"

definition validateDataTypes_item :: "builtins \<Rightarrow> entityType \<Rightarrow> nat \<Rightarrow> row \<Rightarrow> finding list" where
  "validateDataTypes_item B et index item =
     (if et = Clients \<and> truthy (get item ''PriorityLevel'') then
        (let priority = parseInt B (get item ''PriorityLevel'')
         in if priority = NaN \<or> jless priority (Fin 1) \<or> jless (Fin 5) priority
            then [out_of_range et (js_or (get item ''ClientID'') (row_label index)) ''PriorityLevel'']
            else [])
      else [])
     @
     (if et = Tasks \<and> truthy (get item ''Duration'') then
        (let duration = parseInt B (get item ''Duration'')
         in if duration = NaN \<or> jless duration (Fin 1)
            then [out_of_range et (js_or (get item ''TaskID'') (row_label index)) ''Duration'']
            else [])
      else [])
     @
     (if et = Workers \<and> truthy (get item ''MaxLoadPerPhase'') then
        (let maxLoad = parseInt B (get item ''MaxLoadPerPhase'')
         in if maxLoad = NaN \<or> jless maxLoad (Fin 1)
            then [out_of_range et (js_or (get item ''WorkerID'') (row_label index)) ''MaxLoadPerPhase'']
            else [])
      else [])
     @
     (if truthy (get item ''AttributesJSON'') then
        (if JSON_parses B (toString B (get item ''AttributesJSON'')) then []
         else [\<lparr>severity = Error, category = ''Broken JSON'', entityType = et,
                entityId = js_or (any_id item) (row_label index),
                field = Some ''AttributesJSON'', canAutoFix = True\<rparr>])
      else [])"

definition validateDataTypes :: "builtins \<Rightarrow> entityType \<Rightarrow> row list \<Rightarrow> finding list" where
  "validateDataTypes B et items =
     concat (map (\<lambda>(index, item). validateDataTypes_item B et index item) (enumerate 0 items))"

definition validateReferences_client :: "jsval list \<Rightarrow> nat \<times> row \<Rightarrow> js_error + finding list" where
  "validateReferences_client taskIDs ic =
     (case ic of (index, client) \<Rightarrow>
        if truthy (get client ''RequestedTaskIDs'') then
          (case call_split (get client ''RequestedTaskIDs'') of
             Inl e \<Rightarrow> Inl e
           | Inr parts \<Rightarrow>
               Inr (map (\<lambda>taskId. \<lparr>severity = Error, category = ''Unknown Reference'',
                                    entityType = Clients,
                                    entityId = js_or (get client ''ClientID'') (row_label index),
                                    field = Some ''RequestedTaskIDs'', canAutoFix = True\<rparr>)
                      (filter (\<lambda>taskId. taskId \<noteq> [] \<and> JStr taskId \<notin> set taskIDs)
                         (map trim parts))))
        else Inr [])"

definition validateReferences :: "store \<Rightarrow> js_error + finding list" where
  "validateReferences data =
     (let taskIDs = filter truthy (map (\<lambda>t. get t ''TaskID'') (tasks data))
      in case mapE (validateReferences_client taskIDs) (enumerate 0 (clients data)) of
           Inl e \<Rightarrow> Inl e
         | Inr fs \<Rightarrow> Inr (concat fs))"

text \<open>\<^verbatim>\<open>v.split(',').map(s => s.trim().toLowerCase())\<close>\<close>

definition skill_list :: "jsval \<Rightarrow> js_error + string list" where
  "skill_list v =
     (case call_split v of
        Inl e \<Rightarrow> Inl e
      | Inr parts \<Rightarrow> Inr (map (\<lambda>s. toLowerCase (trim s)) parts))"

definition validateSkillCoverage_task :: "string list \<Rightarrow> nat \<times> row \<Rightarrow> js_error + finding list" where
  "validateSkillCoverage_task workerSkills it =
     (case it of (index, task) \<Rightarrow>
        if truthy (get task ''RequiredSkills'') then
          (case skill_list (get task ''RequiredSkills'') of
             Inl e \<Rightarrow> Inl e
           | Inr requiredSkills \<Rightarrow>
               Inr (map (\<lambda>skill. \<lparr>severity = Warning, category = ''Skill Coverage'',
                                   entityType = Tasks,
                                   entityId = js_or (get task ''TaskID'') (row_label index),
                                   field = Some ''RequiredSkills'', canAutoFix = False\<rparr>)
                      (filter (\<lambda>skill. skill \<noteq> [] \<and> skill \<notin> set workerSkills)
                         requiredSkills)))
        else Inr [])"

definition validateSkillCoverage :: "store \<Rightarrow> js_error + finding list" where
  "validateSkillCoverage data =
     (case mapE (\<lambda>worker. if truthy (get worker ''Skills'') then skill_list (get worker ''Skills'')
                           else Inr [])
             (workers data) of
        Inl e \<Rightarrow> Inl e
      | Inr skills \<Rightarrow>
          (case mapE (validateSkillCoverage_task (concat skills)) (enumerate 0 (tasks data)) of
             Inl e \<Rightarrow> Inl e
           | Inr fs \<Rightarrow> Inr (concat fs)))"

definition generateAISuggestions :: "builtins \<Rightarrow> store \<Rightarrow> js_error + finding list" where
  "generateAISuggestions B data =
     (let highPriorityClients =
            filter (\<lambda>c. jge (parseInt B (get c ''PriorityLevel'')) (Fin 4)) (clients data)
      in case mapE (\<lambda>w. if truthy (get w ''Skills'')
                         then (case call_split (get w ''Skills'') of
                                 Inl e \<Rightarrow> Inl e
                               | Inr parts \<Rightarrow> Inr (length parts \<le> 2))
                         else Inr True)
                (workers data) of
           Inl e \<Rightarrow> Inl e
         | Inr low \<Rightarrow>
             Inr ((if rat_of_nat (length (workers data)) * (1 / 2)
                        < rat_of_nat (length highPriorityClients)
                   then [\<lparr>severity = Info, category = ''AI Insight'', entityType = Clients,
                          entityId = JStr ''analysis'', field = None, canAutoFix = False\<rparr>]
                   else [])
                  @
                  (if rat_of_nat (length (workers data)) * (3 / 10)
                        < rat_of_nat (length (filter (\<lambda>b. b) low))
                   then [\<lparr>severity = Info, category = ''AI Insight'', entityType = Workers,
                          entityId = JStr ''analysis'', field = None, canAutoFix = False\<rparr>]
                   else [])))"

text \<open>The battery, in the order \<^verbatim>\<open>runValidation\<close> runs it; the result is \<^verbatim>\<open>allResults\<close>.\<close>

definition runValidation :: "builtins \<Rightarrow> store \<Rightarrow> js_error + finding list" where
  "runValidation B data =
     (let structural =
            validateMissingColumns Clients (clients data)
            @ validateMissingColumns Workers (workers data)
            @ validateMissingColumns Tasks (tasks data)
            @ validateDuplicateIDs Clients (clients data)
            @ validateDuplicateIDs Workers (workers data)
            @ validateDuplicateIDs Tasks (tasks data)
            @ validateDataTypes B Clients (clients data)
            @ validateDataTypes B Workers (workers data)
            @ validateDataTypes B Tasks (tasks data)
      in case validateReferences data of
           Inl e \<Rightarrow> Inl e
         | Inr refs \<Rightarrow>
             (case validateSkillCoverage data of
                Inl e \<Rightarrow> Inl e
              | Inr coverage \<Rightarrow>
                  (case generateAISuggestions B data of
                     Inl e \<Rightarrow> Inl e
                   | Inr insights \<Rightarrow> Inr (structural @ refs @ coverage @ insights))))"

section \<open>Auto-fix\<close>

text \<open>\<^verbatim>\<open>n || d\<close> on numbers.\<close>

definition num_or :: "jsnum \<Rightarrow> jsnum \<Rightarrow> jsnum" where
  "num_or n d = (if truthy (JNum n) then n else d)"

text \<open>\<^verbatim>\<open>entityArray.find(p)\<close> followed by an assignment to the record found.\<close>

fun update_first :: "(row \<Rightarrow> bool) \<Rightarrow> (row \<Rightarrow> row) \<Rightarrow> row list \<Rightarrow> row list" where
  "update_first p g [] = []"
| "update_first p g (item # items) =
     (if p item then g item # items else item # update_first p g items)"

definition fix_range :: "builtins \<Rightarrow> string \<Rightarrow> row \<Rightarrow> row" where
  "fix_range B f item =
     (if f = ''PriorityLevel'' then
        put f (JNum (Math_max (Fin 1) (Math_min (Fin 5) (num_or (parseInt B (get item f)) (Fin 3))))) item
      else if f = ''Duration'' \<or> f = ''MaxLoadPerPhase'' then
        put f (JNum (Math_max (Fin 1) (num_or (parseInt B (get item f)) (Fin 1)))) item
      else item)"

text \<open>
  \<^verbatim>\<open>autoFixIssue\<close>: the store handed to \<^verbatim>\<open>onDataChange\<close>, or the store as it was when
  the finding is not fixable. The source assigns into the shared records; the model
  returns the updated store.
\<close>

definition autoFixIssue :: "builtins \<Rightarrow> store \<Rightarrow> finding \<Rightarrow> store" where
  "autoFixIssue B data result =
     (let et = entityType result; entityArray = rows_of data et
      in if \<not> canAutoFix result then data
         else if category result = ''Duplicate ID'' then
           set_rows data et
             (map (\<lambda>(index, item).
                     if strict_eq (get item (idField et)) (entityId result)
                     then put (idField et)
                            (JStr (toString B (entityId result) @ ''_'' @ show_nat (index + 1))) item
                     else item)
                (enumerate 0 entityArray))
         else if category result = ''Out-of-range Value'' then
           (case field result of
              None \<Rightarrow> data
            | Some f \<Rightarrow>
                if f = [] then data
                else set_rows data et
                       (update_first (\<lambda>item. strict_eq (any_id item) (entityId result))
                          (fix_range B f) entityArray))
         else if category result = ''Broken JSON'' then
           (case field result of
              None \<Rightarrow> data
            | Some f \<Rightarrow>
                if f = [] then data
                else set_rows data et
                       (update_first (\<lambda>item. strict_eq (any_id item) (entityId result))
                          (put f (JStr ''{}'')) entityArray))
         else data)"

section \<open>Allocation simulator\<close>

datatype stress = Low | Medium | High

record AllocationResult =
  workerId :: jsval
  workerName :: jsval
  assignedTasks :: "jsval list"
  workload :: nat
  efficiency :: jsnum
  stress :: stress

text \<open>
  \<^verbatim>\<open>xs.slice(0, c)\<close>: \<^verbatim>\<open>c\<close> is truncated to an integer (\<^verbatim>\<open>NaN\<close> to 0); a negative
  \<^verbatim>\<open>c\<close> counts from the end of the array.
\<close>

definition slice_end :: "jsnum \<Rightarrow> nat \<Rightarrow> nat" where
  "slice_end c len =
     (case c of
        NaN \<Rightarrow> 0
      | NInf \<Rightarrow> 0
      | PInf \<Rightarrow> len
      | Fin q \<Rightarrow>
          (let t = (if 0 \<le> q then \<lfloor>q\<rfloor> else \<lceil>q\<rceil>)
           in if t < 0 then nat (max (int len + t) 0) else min (nat t) len))"

definition slice :: "'a list \<Rightarrow> jsnum \<Rightarrow> 'a list" where
  "slice xs c = take (slice_end c (length xs)) xs"

text \<open>
  \<^verbatim>\<open>v?.split(",").map(s => s.trim().toLowerCase()) || []\<close>: \<^verbatim>\<open>undefined\<close> gives the
  empty list, a string its parts, and a number has no \<^verbatim>\<open>split\<close>.
\<close>

fun skills_of :: "jsval \<Rightarrow> js_error + string list" where
  "skills_of JUndefined = Inr []"
| "skills_of v = skill_list v"

fun filterE :: "('a \<Rightarrow> js_error + bool) \<Rightarrow> 'a list \<Rightarrow> js_error + 'a list" where
  "filterE p [] = Inr []"
| "filterE p (x # xs) =
     (case p x of
        Inl e \<Rightarrow> Inl e
      | Inr b \<Rightarrow>
          (case filterE p xs of
             Inl e \<Rightarrow> Inl e
           | Inr ys \<Rightarrow> Inr (if b then x # ys else ys)))"

definition compatible :: "string list \<Rightarrow> row \<Rightarrow> js_error + bool" where
  "compatible workerSkills task =
     (case skills_of (get task ''RequiredSkills'') of
        Inl e \<Rightarrow> Inl e
      | Inr requiredSkills \<Rightarrow> Inr (list_all (\<lambda>skill. skill \<in> set workerSkills) requiredSkills))"

text \<open>
  \<^verbatim>\<open>Math.random()\<close> is a stream of draws \<open>rnd\<close> read at a position; a call that draws
  returns the next position. The parameter \<open>rules\<close> is passed and never read.
\<close>

definition draws_ok :: "(nat \<Rightarrow> rat) \<Rightarrow> bool" where
  "draws_ok rnd = (\<forall>i. 0 \<le> rnd i \<and> rnd i < 1)"

definition simulateTaskAssignment ::
  "builtins \<Rightarrow> (nat \<Rightarrow> rat) \<Rightarrow> nat \<Rightarrow> row \<Rightarrow> row list \<Rightarrow> 'r list \<Rightarrow> js_error + jsval list \<times> nat" where
  "simulateTaskAssignment B rnd pos worker taskList rules =
     (if taskList = [] then Inr ([], pos)
      else
        case skills_of (get worker ''Skills'') of
          Inl e \<Rightarrow> Inl e
        | Inr workerSkills \<Rightarrow>
            (let maxLoad = js_or (get worker ''MaxLoadPerPhase'') (JNum (Fin 5))
             in case filterE (compatible workerSkills) taskList of
                  Inl e \<Rightarrow> Inl e
                | Inr compatibleTasks \<Rightarrow>
                    (let assignmentCount =
                           Math_min (toNumber B maxLoad)
                             (Fin (of_int \<lfloor>rnd pos * (rat_of_nat (length compatibleTasks) + 1)\<rfloor>))
                     in Inr (map (\<lambda>task. js_or (get task ''TaskID'') (get task ''TaskName''))
                               (slice compatibleTasks assignmentCount),
                             pos + 1))))"

definition stress_of :: "builtins \<Rightarrow> nat \<Rightarrow> jsval \<Rightarrow> stress" where
  "stress_of B load maxLoad =
     (if jless (jmul (toNumber B maxLoad) (Fin (4 / 5))) (Fin (rat_of_nat load)) then High
      else if jless (jmul (toNumber B maxLoad) (Fin (3 / 5))) (Fin (rat_of_nat load)) then Medium
      else Low)"

definition simulate_worker ::
  "builtins \<Rightarrow> row \<Rightarrow> jsval list \<Rightarrow> AllocationResult" where
  "simulate_worker B worker assigned =
     (let maxLoad = js_or (get worker ''MaxLoadPerPhase'') (JNum (Fin 5));
          load = length assigned;
          eff = Math_max (Fin 0) (Math_min (Fin 100)
                  (jmul (jdiv (Fin (rat_of_nat load)) (toNumber B maxLoad)) (Fin 100)))
      in \<lparr>workerId = get worker ''WorkerID'', workerName = get worker ''WorkerName'',
          assignedTasks = assigned, workload = load, efficiency = eff,
          stress = stress_of B load maxLoad\<rparr>)"

text \<open>The \<^verbatim>\<open>forEach\<close> over the workers.\<close>

fun simulate_workers ::
  "builtins \<Rightarrow> (nat \<Rightarrow> rat) \<Rightarrow> nat \<Rightarrow> row list \<Rightarrow> row list \<Rightarrow> 'r list \<Rightarrow> js_error + AllocationResult list" where
  "simulate_workers B rnd pos [] taskList rules = Inr []"
| "simulate_workers B rnd pos (worker # ws) taskList rules =
     (case simulateTaskAssignment B rnd pos worker taskList rules of
        Inl e \<Rightarrow> Inl e
      | Inr (assigned, pos') \<Rightarrow>
          (case simulate_workers B rnd pos' ws taskList rules of
             Inl e \<Rightarrow> Inl e
           | Inr results \<Rightarrow> Inr (simulate_worker B worker assigned # results)))"

definition simulateAllocation ::
  "builtins \<Rightarrow> (nat \<Rightarrow> rat) \<Rightarrow> store \<Rightarrow> 'r list \<Rightarrow> 'p \<Rightarrow> js_error + AllocationResult list" where
  "simulateAllocation B rnd data rules priorities =
     (if workers data = [] then Inr []
      else simulate_workers B rnd 0 (workers data) (tasks data) rules)"

section \<open>Optimizer\<close>

record Optimization =
  before :: "AllocationResult list"
  after :: "AllocationResult list"
  improvements :: "string list"

text \<open>\<^verbatim>\<open>data.workers?.find(w => w.WorkerID === id)?.MaxLoadPerPhase\<close>\<close>

fun find_MaxLoadPerPhase :: "row list \<Rightarrow> jsval \<Rightarrow> jsval" where
  "find_MaxLoadPerPhase [] i = JUndefined"
| "find_MaxLoadPerPhase (w # ws) i =
     (if strict_eq (get w ''WorkerID'') i then get w ''MaxLoadPerPhase''
      else find_MaxLoadPerPhase ws i)"

definition optimize_result ::
  "builtins \<Rightarrow> store \<Rightarrow> string \<Rightarrow> AllocationResult list \<Rightarrow> AllocationResult \<Rightarrow> AllocationResult" where
  "optimize_result B data criteria results result =
     (let r1 = (if js_includes criteria ''cost''
                then result\<lparr>workload := max 1 (nat \<lfloor>rat_of_nat (workload result) * (4 / 5)\<rfloor>),
                            efficiency := Math_min (Fin 100) (jmul (efficiency result) (Fin (11 / 10)))\<rparr>
                else result);
          r2 = (if js_includes criteria ''fair''
                then r1\<lparr>workload :=
                          nat \<lfloor>rat_of_nat (sum_list (map workload results)) / rat_of_nat (length results)
                               + 1 / 2\<rfloor>\<rparr>
                else r1);
          r3 = (if js_includes criteria ''priority''
                then r2\<lparr>efficiency := Math_min (Fin 100) (jmul (efficiency result) (Fin (23 / 20)))\<rparr>
                else r2);
          maxLoad = js_or (find_MaxLoadPerPhase (workers data) (workerId result)) (JNum (Fin 5))
      in r3\<lparr>stress := stress_of B (workload r3) maxLoad\<rparr>)"

definition optimizeAllocation ::
  "builtins \<Rightarrow> (nat \<Rightarrow> rat) \<Rightarrow> store \<Rightarrow> string \<Rightarrow> js_error + Optimization" where
  "optimizeAllocation B rnd data criteria =
     (case simulateAllocation B rnd data ([] :: unit list) () of
        Inl e \<Rightarrow> Inl e
      | Inr results \<Rightarrow>
          Inr \<lparr>before = results,
               after = map (optimize_result B data criteria results) results,
               improvements =
                 [''Reduced overall worker stress by 15%'',
                  ''Improved task distribution efficiency by 12%'',
                  ''Balanced workload across teams'',
                  ''Maintained high-priority client satisfaction'']\<rparr>)"

text \<open>
  The population variance of a list of workloads, as the specification words it: the mean
  of the squared distances from the mean (0 for the empty list).
\<close>

definition mean :: "nat list \<Rightarrow> rat" where
  "mean xs = (if xs = [] then 0 else rat_of_nat (sum_list xs) / rat_of_nat (length xs))"

definition variance :: "nat list \<Rightarrow> rat" where
  "variance xs =
     (if xs = [] then 0
      else sum_list (map (\<lambda>x. (rat_of_nat x - mean xs)\<^sup>2) xs) / rat_of_nat (length xs))"

section \<open>An instance of the language conversions\<close>

text \<open>
  The instance used to run the model on concrete stores. It agrees with the language on
  the strings that are integer literals or no numeric literal at all
  (\<^verbatim>\<open>Number(" 12 ")\<close> is 12, \<^verbatim>\<open>Number("")\<close> is 0, \<^verbatim>\<open>Number("unlimited")\<close> is
  \<^verbatim>\<open>NaN\<close>), on integers and short decimal fractions (\<^verbatim>\<open>String(12)\<close>,
  \<^verbatim>\<open>String(0.5)\<close>), and on the JSON texts it lists; the stores below stay within that.
  Every general theorem holds for all conversions, not only for this instance.
\<close>

definition int_literal :: "string \<Rightarrow> jsnum" where
  "int_literal s =
     (let neg = prefix ''-'' s;
          u = (if prefix ''-'' s \<or> prefix ''+'' s then drop 1 s else s)
      in if u \<noteq> [] \<and> list_all (is_digit 10) u
         then Fin (of_int (if neg then - int (digits_val 10 u) else int (digits_val 10 u)))
         else NaN)"

fun frac_digits :: "nat \<Rightarrow> rat \<Rightarrow> string" where
  "frac_digits 0 q = []"
| "frac_digits (Suc k) q =
     (if q = 0 then []
      else char_of (48 + nat \<lfloor>q * 10\<rfloor>) # frac_digits k (q * 10 - of_int \<lfloor>q * 10\<rfloor>))"

definition show_rat :: "rat \<Rightarrow> string" where
  "show_rat q =
     (let a = \<bar>q\<bar>; n = nat \<lfloor>a\<rfloor>; f = a - of_nat n
      in (if q < 0 then ''-'' else []) @ show_nat n
         @ (if f = 0 then [] else ''.'' @ frac_digits 17 f))"

definition std_builtins :: builtins where
  "std_builtins =
     \<lparr>StringToNumber = (\<lambda>s. if trim s = [] then Fin 0 else int_literal (trim s)),
      NumberToString = (\<lambda>n. case n of NaN \<Rightarrow> ''NaN'' | NInf \<Rightarrow> ''-Infinity''
                               | PInf \<Rightarrow> ''Infinity'' | Fin q \<Rightarrow> show_rat q),
      JSON_parses = (\<lambda>s. trim s \<in> set [''{}'', ''[]'', ''null'', ''true'', ''false'']
                          \<or> int_literal (trim s) \<noteq> NaN)\<rparr>"

section \<open>Concrete stores and draws\<close>

text \<open>Three streams of draws from \<^verbatim>\<open>Math.random()\<close>, each within \<open>[0, 1)\<close>.\<close>

definition draws_zero :: "nat \<Rightarrow> rat" where
  "draws_zero i = 0"

definition draws_half :: "nat \<Rightarrow> rat" where
  "draws_half i = 1 / 2"

definition draws_uneven :: "nat \<Rightarrow> rat" where
  "draws_uneven i = (if i = 0 then 0 else 9 / 10)"

definition ann :: row where
  "ann = [(''WorkerID'', JStr ''W1''), (''WorkerName'', JStr ''Ann''),
          (''Skills'', JStr ''coding''), (''AvailableSlots'', JStr ''[1,2]''),
          (''MaxLoadPerPhase'', JNum (Fin 2))]"

definition bob :: row where
  "bob = [(''WorkerID'', JStr ''W2''), (''WorkerName'', JStr ''Bob''),
          (''Skills'', JStr ''Coding, Design''), (''AvailableSlots'', JStr ''[1,2,3]''),
          (''MaxLoadPerPhase'', JNum (Fin 4))]"

definition zed :: row where
  "zed = [(''WorkerID'', JStr ''W3''), (''WorkerName'', JStr ''Zed''),
          (''Skills'', JStr ''coding''), (''AvailableSlots'', JStr ''[1]''),
          (''MaxLoadPerPhase'', JNum (Fin 0))]"

definition task_coding :: row where
  "task_coding = [(''TaskID'', JStr ''T1''), (''TaskName'', JStr ''Build''),
                  (''Duration'', JNum (Fin 2)), (''RequiredSkills'', JStr ''coding'')]"

definition task_design :: row where
  "task_design = [(''TaskID'', JStr ''T2''), (''TaskName'', JStr ''Sketch''),
                  (''Duration'', JNum (Fin 1)), (''RequiredSkills'', JStr ''design'')]"

definition team_store :: store where
  "team_store = \<lparr>clients = [], workers = [ann, bob], tasks = [task_coding, task_design]\<rparr>"

definition zero_capacity_store :: store where
  "zero_capacity_store = \<lparr>clients = [], workers = [zed], tasks = [task_coding]\<rparr>"

definition design_only_store :: store where
  "design_only_store = \<lparr>clients = [], workers = [ann], tasks = [task_design]\<rparr>"


text \<open>
  What the entry \<open>r\<close> of a worker says once its \<open>assignedTasks\<close> are given: the worker's
  \<open>WorkerID\<close> and \<open>WorkerName\<close>, the workload as the number of assigned tasks, the
  efficiency \<^verbatim>\<open>max(0, min(100, workload / capacity * 100))\<close> and the stress from the
  thresholds \<^verbatim>\<open>0.8 * capacity\<close> and \<^verbatim>\<open>0.6 * capacity\<close>, where the capacity is
  \<^verbatim>\<open>MaxLoadPerPhase || 5\<close>.
\<close>

definition entry_of :: "builtins \<Rightarrow> row \<Rightarrow> AllocationResult \<Rightarrow> bool" where
  "entry_of B worker r =
     (workerId r = get worker ''WorkerID'' \<and>
      workerName r = get worker ''WorkerName'' \<and>
      workload r = length (assignedTasks r) \<and>
      efficiency r =
        Math_max (Fin 0) (Math_min (Fin 100)
          (jmul (jdiv (Fin (rat_of_nat (length (assignedTasks r))))
                   (toNumber B (js_or (get worker ''MaxLoadPerPhase'') (JNum (Fin 5)))))
             (Fin 100))) \<and>
      stress r =
        (if jless (jmul (toNumber B (js_or (get worker ''MaxLoadPerPhase'') (JNum (Fin 5)))) (Fin (4 / 5)))
              (Fin (rat_of_nat (length (assignedTasks r))))
         then High
         else if jless (jmul (toNumber B (js_or (get worker ''MaxLoadPerPhase'') (JNum (Fin 5)))) (Fin (3 / 5)))
                   (Fin (rat_of_nat (length (assignedTasks r))))
         then Medium
         else Low))"

text \<open>
  The assigned tasks are an initial segment of the worker's compatible tasks, taken in the
  order of the task collection and named by \<^verbatim>\<open>TaskID || TaskName\<close>; with no task in the
  store nothing is assigned.
\<close>

definition segment_of_compatible :: "row \<Rightarrow> row list \<Rightarrow> jsval list \<Rightarrow> bool" where
  "segment_of_compatible worker taskList assigned =
     (if taskList = [] then assigned = []
      else \<exists>sk compat.
             skills_of (get worker ''Skills'') = Inr sk \<and>
             filterE (compatible sk) taskList = Inr compat \<and>
             prefix assigned
               (map (\<lambda>task. js_or (get task ''TaskID'') (get task ''TaskName'')) compat))"

definition ann_twin :: row where
  "ann_twin = [(''WorkerID'', JStr ''W1''), (''WorkerName'', JStr ''Ann B''),
               (''Skills'', JStr ''design''), (''AvailableSlots'', JStr ''[3]''),
               (''MaxLoadPerPhase'', JNum (Fin 1))]"

definition twin_store :: store where
  "twin_store = \<lparr>clients = [], workers = [ann, ann_twin], tasks = []\<rparr>"

text \<open>The finding validation reports for the two workers that share \<open>W1\<close>.\<close>

definition twin_finding :: finding where
  "twin_finding =
     \<lparr>severity = Error, category = ''Duplicate ID'', entityType = Workers,
      entityId = JStr ''W1'', field = Some ''WorkerID'', canAutoFix = True\<rparr>"

definition acme :: row where
  "acme = [(''ClientID'', JStr ''C1''), (''ClientName'', JStr ''Acme''),
           (''PriorityLevel'', JNum (Fin 3)), (''RequestedTaskIDs'', JStr ''T1,T9'')]"

definition dangling_store :: store where
  "dangling_store = \<lparr>clients = [acme], workers = [ann], tasks = [task_coding]\<rparr>"

text \<open>The finding validation reports for the request of the unknown task \<open>T9\<close>.\<close>

definition dangling_finding :: finding where
  "dangling_finding =
     \<lparr>severity = Error, category = ''Unknown Reference'', entityType = Clients,
      entityId = JStr ''C1'', field = Some ''RequestedTaskIDs'', canAutoFix = True\<rparr>"

definition zero_priority_client :: row where
  "zero_priority_client = [(''ClientID'', JStr ''C2''), (''ClientName'', JStr ''Zenith''),
                           (''PriorityLevel'', JStr ''0'')]"

definition nine_priority_client :: row where
  "nine_priority_client = [(''ClientID'', JStr ''C3''), (''ClientName'', JStr ''Nonagon''),
                           (''PriorityLevel'', JStr ''9'')]"

definition priority_store :: store where
  "priority_store = \<lparr>clients = [zero_priority_client, nine_priority_client], workers = [], tasks = []\<rparr>"

text \<open>A worker read from a spreadsheet whose \<open>Skills\<close> cell holds the number 7.\<close>

definition sheet_worker :: row where
  "sheet_worker = [(''WorkerID'', JStr ''W4''), (''WorkerName'', JStr ''Kim''),
                   (''Skills'', JNum (Fin 7)), (''AvailableSlots'', JStr ''[1,2]''),
                   (''MaxLoadPerPhase'', JNum (Fin 3))]"

definition sheet_store :: store where
  "sheet_store = \<lparr>clients = [], workers = [sheet_worker], tasks = []\<rparr>"

text \<open>
  A value on which a guarded \<^verbatim>\<open>if (v) v.split(',')\<close> cannot throw: a string, or a value
  that is not truthy.
\<close>

definition splittable :: "jsval \<Rightarrow> bool" where
  "splittable v = (case v of JNum n \<Rightarrow> \<not> truthy v | _ \<Rightarrow> True)"

text \<open>Zed as a CSV file gives him: the capacity is the string \<^verbatim>\<open>"0"\<close>.\<close>

definition zed_csv :: row where
  "zed_csv = [(''WorkerID'', JStr ''W3''), (''WorkerName'', JStr ''Zed''),
              (''Skills'', JStr ''coding''), (''AvailableSlots'', JStr ''[1]''),
              (''MaxLoadPerPhase'', JStr ''0'')]"

definition zero_capacity_csv_store :: store where
  "zero_capacity_csv_store = \<lparr>clients = [], workers = [zed_csv], tasks = [task_coding]\<rparr>"

text \<open>A worker whose capacity is no number, and a worker whose capacity is negative.\<close>

definition vague_worker :: row where
  "vague_worker = [(''WorkerID'', JStr ''W5''), (''WorkerName'', JStr ''Lee''),
                   (''Skills'', JStr ''coding''), (''AvailableSlots'', JStr ''[1]''),
                   (''MaxLoadPerPhase'', JStr ''unlimited'')]"

definition owing_worker :: row where
  "owing_worker = [(''WorkerID'', JStr ''W6''), (''WorkerName'', JStr ''Max''),
                   (''Skills'', JStr ''coding''), (''AvailableSlots'', JStr ''[1]''),
                   (''MaxLoadPerPhase'', JNum (Fin (- 1)))]"

section \<open>Properties of the simulator\<close>

lemma draws_ok_zero: "draws_ok draws_zero"
  by (simp add: draws_ok_def draws_zero_def)

lemma draws_ok_half: "draws_ok draws_half"
  by (simp add: draws_ok_def draws_half_def)

lemma draws_ok_uneven: "draws_ok draws_uneven"
  by (simp add: draws_ok_def draws_uneven_def)

lemma simulateTaskAssignment_cases:
  assumes "simulateTaskAssignment B rnd pos worker taskList rules = Inr (assigned, pos')"
  shows "(taskList = [] \<and> assigned = []) \<or>
         (\<exists>sk compat. skills_of (get worker ''Skills'') = Inr sk \<and>
            filterE (compatible sk) taskList = Inr compat \<and>
            assigned = map (\<lambda>task. js_or (get task ''TaskID'') (get task ''TaskName''))
              (slice compat (Math_min (toNumber B (js_or (get worker ''MaxLoadPerPhase'') (JNum (Fin 5))))
                 (Fin (of_int \<lfloor>rnd pos * (rat_of_nat (length compat) + 1)\<rfloor>)))))"
  using assms
  by (auto simp: simulateTaskAssignment_def Let_def split: if_splits sum.splits)

lemma slice_is_take: "\<exists>n. slice xs c = take n xs"
  by (auto simp: slice_def)

lemma take_prefix_comparable: "prefix (take n xs) (take m xs) \<or> prefix (take m xs) (take n xs)"
proof (cases "n \<le> m")
  case True
  then have "take n xs = take n (take m xs)" by (simp add: min_def)
  then show ?thesis by (metis take_is_prefix)
next
  case False
  then have "take m xs = take m (take n xs)" by (simp add: min_def)
  then show ?thesis by (metis take_is_prefix)
qed

lemma assignment_prefix_comparable:
  assumes "simulateTaskAssignment B rnd1 p1 worker taskList rules = Inr (a1, q1)"
    and "simulateTaskAssignment B rnd2 p2 worker taskList rules = Inr (a2, q2)"
  shows "prefix a1 a2 \<or> prefix a2 a1"
proof -
  from simulateTaskAssignment_cases [OF assms(1)] simulateTaskAssignment_cases [OF assms(2)]
  consider "a1 = []" | "a2 = []"
    | compat :: "row list" and c1 c2 where
        "a1 = map (\<lambda>task. js_or (get task ''TaskID'') (get task ''TaskName'')) (slice compat c1)"
        "a2 = map (\<lambda>task. js_or (get task ''TaskID'') (get task ''TaskName'')) (slice compat c2)"
    by fastforce
  then show ?thesis
  proof cases
    case 3
    obtain n m where "slice compat c1 = take n compat" "slice compat c2 = take m compat"
      using slice_is_take by metis
    with 3 show ?thesis
      using take_prefix_comparable [of n compat m] by (auto intro: map_mono_prefix)
  qed auto
qed

lemma simulate_workers_each:
  "simulate_workers B rnd pos ws taskList rules = Inr rs \<Longrightarrow>
   list_all2 (\<lambda>w r. \<exists>a p q. simulateTaskAssignment B rnd p w taskList rules = Inr (a, q) \<and>
                             r = simulate_worker B w a) ws rs"
proof (induction ws arbitrary: pos rs)
  case Nil
  then show ?case by simp
next
  case (Cons w ws)
  from Cons.prems obtain a q t where
    r: "simulateTaskAssignment B rnd pos w taskList rules = Inr (a, q)"
       "simulate_workers B rnd q ws taskList rules = Inr t"
       "rs = simulate_worker B w a # t"
    by (auto split: sum.splits)
  from Cons.IH [OF r(2)] r(1) show ?case
    by (auto simp: r(3))
qed

lemma simulateAllocation_each:
  assumes "simulateAllocation B rnd data rules priorities = Inr rs"
  shows "length rs = length (workers data)"
    and "i < length rs \<Longrightarrow>
         \<exists>a p q. simulateTaskAssignment B rnd p (workers data ! i) (tasks data) rules = Inr (a, q) \<and>
                 rs ! i = simulate_worker B (workers data ! i) a"
proof -
  have l: "list_all2 (\<lambda>w r. \<exists>a p q. simulateTaskAssignment B rnd p w (tasks data) rules = Inr (a, q) \<and>
                             r = simulate_worker B w a) (workers data) rs"
  proof (cases "workers data = []")
    case True
    with assms show ?thesis by (simp add: simulateAllocation_def)
  next
    case False
    with assms have "simulate_workers B rnd 0 (workers data) (tasks data) rules = Inr rs"
      by (simp add: simulateAllocation_def)
    then show ?thesis by (rule simulate_workers_each)
  qed
  then show "length rs = length (workers data)"
    by (simp add: list_all2_lengthD)
  show "i < length rs \<Longrightarrow>
         \<exists>a p q. simulateTaskAssignment B rnd p (workers data ! i) (tasks data) rules = Inr (a, q) \<and>
                 rs ! i = simulate_worker B (workers data ! i) a"
    using l by (auto simp: list_all2_conv_all_nth)
qed

lemma simulate_worker_entry: "entry_of B worker (simulate_worker B worker assigned)"
  by (simp add: entry_of_def simulate_worker_def stress_of_def Let_def)

lemma assignedTasks_simulate_worker: "assignedTasks (simulate_worker B worker assigned) = assigned"
  by (simp add: simulate_worker_def Let_def)

lemma assignment_segment_of_compatible:
  assumes "simulateTaskAssignment B rnd pos worker taskList rules = Inr (assigned, pos')"
  shows "segment_of_compatible worker taskList assigned"
proof (cases "taskList = []")
  case True
  with assms show ?thesis
    by (simp add: simulateTaskAssignment_def segment_of_compatible_def)
next
  case False
  with simulateTaskAssignment_cases [OF assms] obtain sk compat c where
    sk: "skills_of (get worker ''Skills'') = Inr sk"
    and compat: "filterE (compatible sk) taskList = Inr compat"
    and a: "assigned = map (\<lambda>task. js_or (get task ''TaskID'') (get task ''TaskName'')) (slice compat c)"
    by blast
  obtain n where "slice compat c = take n compat"
    using slice_is_take by blast
  then have "prefix assigned (map (\<lambda>task. js_or (get task ''TaskID'') (get task ''TaskName'')) compat)"
    unfolding a by (simp add: map_mono_prefix take_is_prefix)
  with False sk compat show ?thesis
    unfolding segment_of_compatible_def by auto
qed

text \<open>
  Claim C1, as amended. The simulator reads \<^verbatim>\<open>Math.random()\<close>, so two invocations on one
  input need not agree. Every invocation that returns gives exactly one entry per worker,
  in the order of the worker collection. Entry \<open>i\<close> carries the \<open>WorkerID\<close> and the
  \<open>WorkerName\<close> of worker \<open>i\<close>; its workload is the length of its \<open>assignedTasks\<close>; its
  efficiency and its stress are the simulator's functions of that length and of the
  worker's capacity \<^verbatim>\<open>MaxLoadPerPhase || 5\<close> (\<open>entry_of\<close>); and its \<open>assignedTasks\<close> are an
  initial segment of the worker's compatible tasks in the order of the task collection
  (\<open>segment_of_compatible\<close>). For two invocations that both return, the \<open>assignedTasks\<close> of
  a worker in one run are an initial segment of its \<open>assignedTasks\<close> in the other.
\<close>

theorem two_runs_agree_up_to_prefix:
  assumes "simulateAllocation B rnd1 data rules priorities = Inr rs1"
    and "simulateAllocation B rnd2 data rules priorities = Inr rs2"
  shows "length rs1 = length (workers data) \<and> length rs2 = length (workers data) \<and>
         (\<forall>i < length (workers data).
            entry_of B (workers data ! i) (rs1 ! i) \<and>
            entry_of B (workers data ! i) (rs2 ! i) \<and>
            segment_of_compatible (workers data ! i) (tasks data) (assignedTasks (rs1 ! i)) \<and>
            segment_of_compatible (workers data ! i) (tasks data) (assignedTasks (rs2 ! i)) \<and>
            (prefix (assignedTasks (rs1 ! i)) (assignedTasks (rs2 ! i)) \<or>
             prefix (assignedTasks (rs2 ! i)) (assignedTasks (rs1 ! i))))"
proof (intro conjI allI impI)
  show l1: "length rs1 = length (workers data)"
    using assms(1) by (rule simulateAllocation_each(1))
  show l2: "length rs2 = length (workers data)"
    using assms(2) by (rule simulateAllocation_each(1))
  fix i assume i: "i < length (workers data)"
  have i1: "i < length rs1" using i l1 by simp
  have i2: "i < length rs2" using i l2 by simp
  from simulateAllocation_each(2) [OF assms(1) i1] obtain a1 p1 q1 where
    r1: "simulateTaskAssignment B rnd1 p1 (workers data ! i) (tasks data) rules = Inr (a1, q1)"
        "rs1 ! i = simulate_worker B (workers data ! i) a1"
    by blast
  from simulateAllocation_each(2) [OF assms(2) i2] obtain a2 p2 q2 where
    r2: "simulateTaskAssignment B rnd2 p2 (workers data ! i) (tasks data) rules = Inr (a2, q2)"
        "rs2 ! i = simulate_worker B (workers data ! i) a2"
    by blast
  show "entry_of B (workers data ! i) (rs1 ! i)"
    unfolding r1(2) by (rule simulate_worker_entry)
  show "entry_of B (workers data ! i) (rs2 ! i)"
    unfolding r2(2) by (rule simulate_worker_entry)
  show "segment_of_compatible (workers data ! i) (tasks data) (assignedTasks (rs1 ! i))"
    unfolding r1(2) assignedTasks_simulate_worker
    using r1(1) by (rule assignment_segment_of_compatible)
  show "segment_of_compatible (workers data ! i) (tasks data) (assignedTasks (rs2 ! i))"
    unfolding r2(2) assignedTasks_simulate_worker
    using r2(1) by (rule assignment_segment_of_compatible)
  show "prefix (assignedTasks (rs1 ! i)) (assignedTasks (rs2 ! i)) \<or>
        prefix (assignedTasks (rs2 ! i)) (assignedTasks (rs1 ! i))"
    unfolding r1(2) r2(2) assignedTasks_simulate_worker
    using r1(1) r2(1) by (rule assignment_prefix_comparable)
qed

text \<open>Whether an invocation throws does not depend on the draws.\<close>

lemma simulate_workers_throw_independent:
  "isl (simulate_workers B rnd1 p1 ws taskList rules) = isl (simulate_workers B rnd2 p2 ws taskList rules)"
proof (induction ws arbitrary: p1 p2)
  case Nil
  then show ?case by simp
next
  case (Cons w ws)
  have "isl (simulateTaskAssignment B rnd1 p1 w taskList rules)
      = isl (simulateTaskAssignment B rnd2 p2 w taskList rules)"
    by (auto simp: simulateTaskAssignment_def Let_def split: sum.splits)
  with Cons.IH show ?case
    by (auto split: sum.splits) (metis sum.disc)+
qed

text \<open>
  Claim C1, as stated, fails: on the store of Ann and Bob with the tasks T1 and T2, a run
  whose draws are all 0 assigns nothing, and a run whose draws are all 1/2 assigns T1 to
  both workers.
\<close>

theorem simulator_not_deterministic:
  "draws_ok draws_zero \<and> draws_ok draws_half \<and>
   simulateAllocation std_builtins draws_zero team_store ([] :: unit list) ()
     = Inr [\<lparr>workerId = JStr ''W1'', workerName = JStr ''Ann'', assignedTasks = [],
             workload = 0, efficiency = Fin 0, stress = Low\<rparr>,
            \<lparr>workerId = JStr ''W2'', workerName = JStr ''Bob'', assignedTasks = [],
             workload = 0, efficiency = Fin 0, stress = Low\<rparr>] \<and>
   simulateAllocation std_builtins draws_half team_store ([] :: unit list) ()
     = Inr [\<lparr>workerId = JStr ''W1'', workerName = JStr ''Ann'', assignedTasks = [JStr ''T1''],
             workload = 1, efficiency = Fin 50, stress = Low\<rparr>,
            \<lparr>workerId = JStr ''W2'', workerName = JStr ''Bob'', assignedTasks = [JStr ''T1''],
             workload = 1, efficiency = Fin 25, stress = Low\<rparr>]"
  by (intro conjI draws_ok_zero draws_ok_half) code_simp+

text \<open>
  The amended claim C1 at two runs on that store that differ, read at Bob, the second
  worker.
\<close>

theorem two_runs_agree_up_to_prefix_witness:
  "\<exists>rs1 rs2.
     simulateAllocation std_builtins draws_half team_store ([] :: unit list) () = Inr rs1 \<and>
     simulateAllocation std_builtins draws_uneven team_store ([] :: unit list) () = Inr rs2 \<and>
     length rs1 = length (workers team_store) \<and> length rs2 = length (workers team_store) \<and>
     1 < length (workers team_store) \<and>
     map assignedTasks rs1 = [[JStr ''T1''], [JStr ''T1'']] \<and>
     map assignedTasks rs2 = [[], [JStr ''T1'', JStr ''T2'']] \<and>
     entry_of std_builtins (workers team_store ! 1) (rs1 ! 1) \<and>
     entry_of std_builtins (workers team_store ! 1) (rs2 ! 1) \<and>
     segment_of_compatible (workers team_store ! 1) (tasks team_store) (assignedTasks (rs1 ! 1)) \<and>
     segment_of_compatible (workers team_store ! 1) (tasks team_store) (assignedTasks (rs2 ! 1)) \<and>
     (prefix (assignedTasks (rs1 ! 1)) (assignedTasks (rs2 ! 1)) \<or>
      prefix (assignedTasks (rs2 ! 1)) (assignedTasks (rs1 ! 1)))"
proof -
  let ?run1 = "simulateAllocation std_builtins draws_half team_store ([] :: unit list) ()"
  let ?run2 = "simulateAllocation std_builtins draws_uneven team_store ([] :: unit list) ()"
  have "\<not> isl ?run1" by code_simp
  then obtain rs1 where r1: "?run1 = Inr rs1" by (cases ?run1) auto
  have "\<not> isl ?run2" by code_simp
  then obtain rs2 where r2: "?run2 = Inr rs2" by (cases ?run2) auto
  have "map assignedTasks (projr ?run1) = [[JStr ''T1''], [JStr ''T1'']]" by code_simp
  then have a1: "map assignedTasks rs1 = [[JStr ''T1''], [JStr ''T1'']]" by (simp add: r1)
  have "map assignedTasks (projr ?run2) = [[], [JStr ''T1'', JStr ''T2'']]" by code_simp
  then have a2: "map assignedTasks rs2 = [[], [JStr ''T1'', JStr ''T2'']]" by (simp add: r2)
  have n: "1 < length (workers team_store)" by code_simp
  note t = two_runs_agree_up_to_prefix [OF r1 r2]
  from t have l1: "length rs1 = length (workers team_store)" by (rule conjunct1)
  from t have l2: "length rs2 = length (workers team_store)" by (rule conjunct1 [OF conjunct2])
  from t n have at1:
    "entry_of std_builtins (workers team_store ! 1) (rs1 ! 1) \<and>
     entry_of std_builtins (workers team_store ! 1) (rs2 ! 1) \<and>
     segment_of_compatible (workers team_store ! 1) (tasks team_store) (assignedTasks (rs1 ! 1)) \<and>
     segment_of_compatible (workers team_store ! 1) (tasks team_store) (assignedTasks (rs2 ! 1)) \<and>
     (prefix (assignedTasks (rs1 ! 1)) (assignedTasks (rs2 ! 1)) \<or>
      prefix (assignedTasks (rs2 ! 1)) (assignedTasks (rs1 ! 1)))"
    by blast
  show ?thesis
    by (rule exI [of _ rs1], rule exI [of _ rs2])
       (intro conjI r1 r2 l1 l2 n a1 a2 at1)
qed

lemma Math_min_Fin: "Math_min (Fin a) (Fin b) = Fin (min a b)"
  by (auto simp: Math_min_def min_def)

lemma slice_end_nonneg: "0 \<le> m \<Longrightarrow> slice_end (Fin m) len = min (nat \<lfloor>m\<rfloor>) len"
  by (simp add: slice_end_def Let_def not_less)

lemma slice_length_le_count:
  assumes "0 \<le> m"
  shows "rat_of_nat (length (slice xs (Fin m))) \<le> m"
proof -
  have f0: "0 \<le> \<lfloor>m\<rfloor>" using assms by simp
  have "length (slice xs (Fin m)) \<le> nat \<lfloor>m\<rfloor>"
    by (simp add: slice_def slice_end_nonneg [OF assms])
  then have "rat_of_nat (length (slice xs (Fin m))) \<le> rat_of_nat (nat \<lfloor>m\<rfloor>)"
    by simp
  also have "\<dots> = of_int \<lfloor>m\<rfloor>" using f0 by simp
  also have "\<dots> \<le> m" by (rule of_int_floor_le)
  finally show ?thesis .
qed

lemma slice_length_le:
  assumes "0 \<le> q" and "0 \<le> k"
  shows "rat_of_nat (length (slice xs (Math_min (Fin q) (Fin (of_int k))))) \<le> q"
proof -
  have "0 \<le> min q (of_int k)" using assms by simp
  then have "rat_of_nat (length (slice xs (Fin (min q (of_int k))))) \<le> min q (of_int k)"
    by (rule slice_length_le_count)
  also have "\<dots> \<le> q" by (rule min.cobounded1)
  finally show ?thesis by (simp only: Math_min_Fin)
qed

lemma assignment_within_capacity:
  assumes ok: "draws_ok rnd"
    and run: "simulateTaskAssignment B rnd pos worker taskList rules = Inr (assigned, pos')"
    and cap: "toNumber B (js_or (get worker ''MaxLoadPerPhase'') (JNum (Fin 5))) = Fin q"
    and q: "0 \<le> q"
  shows "rat_of_nat (length assigned) \<le> q"
proof -
  from simulateTaskAssignment_cases [OF run]
  show ?thesis
  proof (elim disjE exE conjE)
    assume "assigned = []"
    then show ?thesis using q by simp
  next
    fix sk compat
    assume a: "assigned = map (\<lambda>task. js_or (get task ''TaskID'') (get task ''TaskName''))
              (slice compat (Math_min (toNumber B (js_or (get worker ''MaxLoadPerPhase'') (JNum (Fin 5))))
                 (Fin (of_int \<lfloor>rnd pos * (rat_of_nat (length compat) + 1)\<rfloor>))))"
    have "0 \<le> rnd pos" using ok by (simp add: draws_ok_def)
    then have "0 \<le> \<lfloor>rnd pos * (rat_of_nat (length compat) + 1)\<rfloor>" by simp
    from slice_length_le [OF q this] show ?thesis
      by (simp add: a cap)
  qed
qed

text \<open>
  A capacity that reads as zero leaves the worker without a task, so the division
  \<^verbatim>\<open>workload / maxLoad\<close> by zero only ever has the numerator zero.
\<close>

lemma zero_divisor_zero_numerator:
  assumes "draws_ok rnd"
    and "simulateTaskAssignment B rnd pos worker taskList rules = Inr (assigned, pos')"
    and "toNumber B (js_or (get worker ''MaxLoadPerPhase'') (JNum (Fin 5))) = Fin 0"
  shows "assigned = []"
  using assignment_within_capacity [OF assms] by simp

text \<open>
  The bound the simulator keeps. The capacity it uses is \<^verbatim>\<open>MaxLoadPerPhase || 5\<close>. With
  draws in \<open>[0, 1)\<close>, whenever that capacity reads as a number \<open>q \<ge> 0\<close>, the workload of
  the worker is the length of its \<open>assignedTasks\<close> and is at most \<open>q\<close>. The rules are never
  read, so this holds for every list of rules.
\<close>

theorem workload_within_used_capacity:
  assumes "draws_ok rnd"
    and "simulateAllocation B rnd data rules priorities = Inr rs"
    and "i < length rs"
    and "toNumber B (js_or (get (workers data ! i) ''MaxLoadPerPhase'') (JNum (Fin 5))) = Fin q"
    and "0 \<le> q"
  shows "workload (rs ! i) = length (assignedTasks (rs ! i)) \<and> rat_of_nat (workload (rs ! i)) \<le> q"
proof -
  from simulateAllocation_each(2) [OF assms(2,3)] obtain a p p' where
    a: "simulateTaskAssignment B rnd p (workers data ! i) (tasks data) rules = Inr (a, p')"
       "rs ! i = simulate_worker B (workers data ! i) a"
    by blast
  from assignment_within_capacity [OF assms(1) a(1) assms(4,5)]
  show ?thesis by (simp add: a(2) simulate_worker_def Let_def)
qed

text \<open>The bound at Bob, whose capacity is 4, in a run that assigns him two tasks.\<close>

theorem workload_within_used_capacity_witness:
  "draws_ok draws_uneven \<and>
   (\<exists>rs. simulateAllocation std_builtins draws_uneven team_store ([] :: unit list) () = Inr rs \<and>
      1 < length rs \<and>
      toNumber std_builtins (js_or (get (workers team_store ! 1) ''MaxLoadPerPhase'') (JNum (Fin 5))) = Fin 4 \<and>
      workload (rs ! 1) = 2 \<and>
      workload (rs ! 1) = length (assignedTasks (rs ! 1)) \<and>
      rat_of_nat (workload (rs ! 1)) \<le> 4)"
proof -
  let ?run = "simulateAllocation std_builtins draws_uneven team_store ([] :: unit list) ()"
  have "\<not> isl ?run" by code_simp
  then obtain rs where r: "?run = Inr rs" by (cases ?run) auto
  have "map workload (projr ?run) = [0, 2]" by code_simp
  then have w: "map workload rs = [0, 2]" by (simp add: r)
  have l: "1 < length rs" using arg_cong [OF w, of length] by simp
  have w1: "workload (rs ! 1) = 2"
    using arg_cong [OF w, of "\<lambda>xs. xs ! 1"] l by simp
  have c: "toNumber std_builtins (js_or (get (workers team_store ! 1) ''MaxLoadPerPhase'') (JNum (Fin 5))) = Fin 4"
    by code_simp
  have q: "(0::rat) \<le> 4" by simp
  from workload_within_used_capacity [OF draws_ok_uneven r l c q]
  have b: "workload (rs ! 1) = length (assignedTasks (rs ! 1))" "rat_of_nat (workload (rs ! 1)) \<le> 4"
    by simp_all
  show ?thesis
    by (rule conjI [OF draws_ok_uneven], rule exI [of _ rs], intro conjI)
       (fact r, fact l, fact c, fact w1, fact b(1), fact b(2))
qed

text \<open>The filter returns no task exactly when every task fails the compatibility test.\<close>

lemma filterE_Nil_iff: "filterE p xs = Inr [] \<longleftrightarrow> list_all (\<lambda>x. p x = Inr False) xs"
  by (induction xs) (auto split: sum.splits)

lemma no_compatible_no_assignment:
  assumes "simulateTaskAssignment B rnd pos worker taskList rules = Inr (assigned, pos')"
    and "skills_of (get worker ''Skills'') = Inr sk"
    and "filterE (compatible sk) taskList = Inr []"
  shows "assigned = []"
  using simulateTaskAssignment_cases [OF assms(1)] assms(2,3)
  by (auto simp: slice_def)

lemma idle_worker_result:
  assumes "toNumber B (js_or (get worker ''MaxLoadPerPhase'') (JNum (Fin 5))) = Fin q" and "0 < q"
  shows "efficiency (simulate_worker B worker []) = Fin 0"
    and "stress (simulate_worker B worker []) = Low"
  using assms
  by (simp_all add: simulate_worker_def Let_def stress_of_def Math_min_def Math_max_def
        zero_less_mult_iff not_less less_imp_le)

text \<open>
  The half of claim C6 the simulator keeps. A worker for whom the filter of compatible
  tasks returns the empty list has no assigned task and workload 0; its efficiency is 0 and
  its stress is low whenever the capacity the simulator uses reads as a positive number.
\<close>

theorem no_compatible_task_idle:
  assumes "simulateAllocation B rnd data rules priorities = Inr rs"
    and "i < length rs"
    and "skills_of (get (workers data ! i) ''Skills'') = Inr sk"
    and "filterE (compatible sk) (tasks data) = Inr []"
  shows "workload (rs ! i) = 0 \<and> assignedTasks (rs ! i) = [] \<and>
         (\<forall>q. toNumber B (js_or (get (workers data ! i) ''MaxLoadPerPhase'') (JNum (Fin 5))) = Fin q
                \<and> 0 < q \<longrightarrow> efficiency (rs ! i) = Fin 0 \<and> stress (rs ! i) = Low)"
proof -
  from simulateAllocation_each(2) [OF assms(1,2)] obtain a p p' where
    a: "simulateTaskAssignment B rnd p (workers data ! i) (tasks data) rules = Inr (a, p')"
       "rs ! i = simulate_worker B (workers data ! i) a"
    by blast
  have e: "a = []"
    using no_compatible_no_assignment [OF a(1) assms(3,4)] .
  have "workload (rs ! i) = 0 \<and> assignedTasks (rs ! i) = []"
    by (simp add: a(2) e simulate_worker_def Let_def)
  then show ?thesis
    using idle_worker_result [of B "workers data ! i"] by (auto simp: a(2) e)
qed

text \<open>That half at Ann, who codes, when the only task asks for design.\<close>

theorem no_compatible_task_idle_witness:
  "\<exists>rs. simulateAllocation std_builtins draws_half design_only_store ([] :: unit list) () = Inr rs \<and>
     0 < length rs \<and>
     skills_of (get (workers design_only_store ! 0) ''Skills'') = Inr [''coding''] \<and>
     filterE (compatible [''coding'']) (tasks design_only_store) = Inr [] \<and>
     toNumber std_builtins (js_or (get (workers design_only_store ! 0) ''MaxLoadPerPhase'') (JNum (Fin 5))) = Fin 2 \<and>
     workload (rs ! 0) = 0 \<and> assignedTasks (rs ! 0) = [] \<and>
     efficiency (rs ! 0) = Fin 0 \<and> stress (rs ! 0) = Low"
proof -
  let ?run = "simulateAllocation std_builtins draws_half design_only_store ([] :: unit list) ()"
  have "\<not> isl ?run" by code_simp
  then obtain rs where r: "?run = Inr rs" by (cases ?run) auto
  have "length (projr ?run) = 1" by code_simp
  then have l: "0 < length rs" by (simp add: r)
  have s: "skills_of (get (workers design_only_store ! 0) ''Skills'') = Inr [''coding'']"
    by code_simp
  have f: "filterE (compatible [''coding'']) (tasks design_only_store) = Inr []"
    by code_simp
  have c: "toNumber std_builtins (js_or (get (workers design_only_store ! 0) ''MaxLoadPerPhase'') (JNum (Fin 5))) = Fin 2"
    by code_simp
  from no_compatible_task_idle [OF r l s f] c
  have b: "workload (rs ! 0) = 0" "assignedTasks (rs ! 0) = []"
          "efficiency (rs ! 0) = Fin 0" "stress (rs ! 0) = Low"
    by simp_all
  show ?thesis
    by (rule exI [of _ rs], intro conjI)
       (fact r, fact l, fact s, fact f, fact c, fact b(1), fact b(2), fact b(3), fact b(4))
qed


text \<open>
  Claim C4 at a failing input. Zed's \<open>MaxLoadPerPhase\<close> is the number 0. The simulator
  caps the assignment by \<^verbatim>\<open>Math.min(maxLoad, ...)\<close>, but \<^verbatim>\<open>maxLoad\<close> is
  \<^verbatim>\<open>worker.MaxLoadPerPhase || 5\<close>, which takes the number 0 for a missing value: with the
  draw 1/2 Zed is assigned one task, and his workload 1 exceeds his capacity 0.
\<close>

theorem zero_capacity_exceeded:
  "get (workers zero_capacity_store ! 0) ''MaxLoadPerPhase'' = JNum (Fin 0) \<and>
   draws_ok draws_half \<and>
   map workload (projr (simulateAllocation std_builtins draws_half zero_capacity_store ([] :: unit list) ())) = [1]"
  by (intro conjI draws_ok_half) code_simp+

text \<open>
  Claim C6 at a failing input: a worker with zero capacity is not left idle. Zed's
  \<open>MaxLoadPerPhase\<close> is the number 0, which \<^verbatim>\<open>worker.MaxLoadPerPhase || 5\<close> replaces
  by 5; with the draw 1/2 his entry has one assigned task, workload 1 and efficiency 20,
  where the claim says workload 0 and efficiency 0.
\<close>

theorem zero_capacity_not_idle:
  "simulateAllocation std_builtins draws_half zero_capacity_store ([] :: unit list) ()
     = Inr [\<lparr>workerId = JStr ''W3'', workerName = JStr ''Zed'', assignedTasks = [JStr ''T1''],
             workload = 1, efficiency = Fin 20, stress = Low\<rparr>]"
  by code_simp

text \<open>
  The same line reads the string \<^verbatim>\<open>"0"\<close>, which is truthy, as the capacity 0: Zed from a
  CSV file is assigned nothing, whatever the draw allows. His efficiency is then
  \<^verbatim>\<open>0 / 0 * 100\<close>, which is \<^verbatim>\<open>NaN\<close>.
\<close>

lemma string_zero_capacity_caps:
  "simulateAllocation std_builtins draws_half zero_capacity_csv_store ([] :: unit list) ()
     = Inr [\<lparr>workerId = JStr ''W3'', workerName = JStr ''Zed'', assignedTasks = [],
             workload = 0, efficiency = NaN, stress = Low\<rparr>]"
  by code_simp

text \<open>
  The capacity has to be positive for the stress of an idle worker to be low: with the
  capacity -1 the comparison \<^verbatim>\<open>0 > -0.8\<close> holds and the stress is high.
\<close>

lemma negative_capacity_idle_high_stress:
  "simulateAllocation std_builtins draws_half
       \<lparr>clients = [], workers = [owing_worker], tasks = [task_design]\<rparr> ([] :: unit list) ()
     = Inr [\<lparr>workerId = JStr ''W6'', workerName = JStr ''Max'', assignedTasks = [],
             workload = 0, efficiency = Fin 0, stress = High\<rparr>]"
  by code_simp

section \<open>Properties of the optimizer\<close>

lemma workload_optimize_result_fair:
  "js_includes criteria ''fair'' \<Longrightarrow>
   workload (optimize_result B data criteria results r) =
     nat \<lfloor>rat_of_nat (sum_list (map workload results)) / rat_of_nat (length results) + 1 / 2\<rfloor>"
  by (simp add: optimize_result_def Let_def)

lemma variance_nonneg: "0 \<le> variance xs"
  unfolding variance_def
  by (auto intro!: divide_nonneg_nonneg sum_list_nonneg)

lemma sum_list_constant: "\<forall>x \<in> set xs. x = (c::nat) \<Longrightarrow> sum_list xs = length xs * c"
  by (induction xs) auto

lemma variance_constant:
  assumes "\<forall>x \<in> set xs. x = c"
  shows "variance xs = 0"
proof (cases "xs = []")
  case True
  then show ?thesis by (simp add: variance_def)
next
  case False
  have "mean xs = rat_of_nat c"
    using False sum_list_constant [OF assms] by (simp add: mean_def)
  then have "map (\<lambda>x. (rat_of_nat x - mean xs)\<^sup>2) xs = map (\<lambda>x. 0) xs"
    using assms by simp
  then have "sum_list (map (\<lambda>x. (rat_of_nat x - mean xs)\<^sup>2) xs) = sum_list (map (\<lambda>x. 0 :: rat) xs)"
    by (rule arg_cong)
  also have "\<dots> = 0" by simp
  finally show ?thesis
    by (simp only: variance_def if_not_P [OF False] div_0)
qed

text \<open>
  Claim C7. When the objective contains \<^verbatim>\<open>fair\<close> and the optimizer returns, the variance
  of the workloads after is at most the variance of the workloads before: every workload
  after is the rounded mean of the workloads before.
\<close>

theorem fair_reduces_variance:
  assumes "js_includes criteria ''fair''"
    and "optimizeAllocation B rnd data criteria = Inr opt"
  shows "variance (map workload (after opt)) \<le> variance (map workload (before opt))"
proof -
  from assms(2) obtain results where
    opt: "before opt = results" "after opt = map (optimize_result B data criteria results) results"
    by (auto simp: optimizeAllocation_def split: sum.splits)
  have "\<forall>x \<in> set (map workload (after opt)).
          x = nat \<lfloor>rat_of_nat (sum_list (map workload results)) / rat_of_nat (length results) + 1 / 2\<rfloor>"
    using assms(1) by (auto simp: opt workload_optimize_result_fair)
  then have "variance (map workload (after opt)) = 0"
    by (rule variance_constant)
  then show ?thesis
    by (simp add: variance_nonneg)
qed

text \<open>Claim C7 at a run whose workloads before are 0 and 2.\<close>

theorem fair_reduces_variance_witness:
  "js_includes ''fair'' ''fair'' \<and>
   (\<exists>opt. optimizeAllocation std_builtins draws_uneven team_store ''fair'' = Inr opt \<and>
      map workload (before opt) = [0, 2] \<and>
      variance (map workload (after opt)) \<le> variance (map workload (before opt)))"
proof -
  let ?run = "optimizeAllocation std_builtins draws_uneven team_store ''fair''"
  have f: "js_includes ''fair'' ''fair''" by code_simp
  have "\<not> isl ?run" by code_simp
  then obtain opt where o: "?run = Inr opt" by (cases ?run) auto
  have "map workload (before (projr ?run)) = [0, 2]" by code_simp
  then have b: "map workload (before opt) = [0, 2]" by (simp add: o)
  have v: "variance (map workload (after opt)) \<le> variance (map workload (before opt))"
    using f o by (rule fair_reduces_variance)
  show ?thesis
    by (rule conjI [OF f], rule exI [of _ opt], intro conjI) (fact o, fact b, fact v)
qed

text \<open>
  Claim C10. Whenever the optimizer returns, its \<open>improvements\<close> are the same four
  strings, whatever the store, the draws and the objective.
\<close>

theorem improvements_fixed:
  "optimizeAllocation B rnd data criteria = Inr opt \<Longrightarrow>
   improvements opt =
     [''Reduced overall worker stress by 15%'',
      ''Improved task distribution efficiency by 12%'',
      ''Balanced workload across teams'',
      ''Maintained high-priority client satisfaction'']"
  by (auto simp: optimizeAllocation_def split: sum.splits)

text \<open>Claim C10 at a run on the store of Ann and Bob.\<close>

theorem improvements_fixed_witness:
  "\<exists>opt. optimizeAllocation std_builtins draws_half team_store ''minimize cost'' = Inr opt \<and>
     improvements opt =
       [''Reduced overall worker stress by 15%'',
        ''Improved task distribution efficiency by 12%'',
        ''Balanced workload across teams'',
        ''Maintained high-priority client satisfaction'']"
proof -
  let ?run = "optimizeAllocation std_builtins draws_half team_store ''minimize cost''"
  have "\<not> isl ?run" by code_simp
  then obtain opt where o: "?run = Inr opt" by (cases ?run) auto
  show ?thesis
    by (rule exI [of _ opt], rule conjI [OF o]) (rule improvements_fixed [OF o])
qed









text \<open>
  The efficiency before has to be a number for the efficiency after to be at least as
  large: a capacity that reads as \<^verbatim>\<open>NaN\<close> gives the efficiency \<^verbatim>\<open>NaN\<close> before and
  after, and \<^verbatim>\<open>NaN >= NaN\<close> is false.
\<close>

lemma nan_efficiency_not_raised:
  "map efficiency (before (projr (optimizeAllocation std_builtins draws_half
       \<lparr>clients = [], workers = [vague_worker], tasks = [task_coding]\<rparr> ''cost''))) = [NaN] \<and>
   map efficiency (after (projr (optimizeAllocation std_builtins draws_half
       \<lparr>clients = [], workers = [vague_worker], tasks = [task_coding]\<rparr> ''cost''))) = [NaN] \<and>
   \<not> jge NaN NaN"
  by (intro conjI) code_simp+

section \<open>Properties of validation and auto-fix\<close>

lemma get_put: "get (put f v r) g = (if g = f then v else get r g)"
  by (induction r) (auto simp: get_def)

lemma rows_of_set_rows: "rows_of (set_rows data et rs) et' = (if et' = et then rs else rows_of data et')"
  by (cases et; cases et') simp_all

lemma renamed_not_offending: "\<not> strict_eq (JStr (toString B e @ ''_'' @ s)) e"
  by (cases e) (simp_all add: strict_eq_def)

lemma autoFixIssue_duplicate:
  assumes "canAutoFix f" and "category f = ''Duplicate ID''"
  shows "rows_of (autoFixIssue B data f) (entityType f) =
           map (\<lambda>(index, item).
                  if strict_eq (get item (idField (entityType f))) (entityId f)
                  then put (idField (entityType f))
                         (JStr (toString B (entityId f) @ ''_'' @ show_nat (index + 1))) item
                  else item)
             (enumerate 0 (rows_of data (entityType f)))"
  using assms by (simp add: autoFixIssue_def Let_def rows_of_set_rows)

text \<open>
  Claim C3, as amended. The Duplicate ID fix keeps the number of records and renames every
  record of the collection whose primary key is the offending ID, the first occurrence
  included: record \<open>i\<close> (counted from 0) gets the ID followed by \<^verbatim>\<open>_\<close> and \<open>i + 1\<close>, its
  1-based position in the whole collection. Every other record and every other field is
  as before, and no record keeps the offending ID.
\<close>

theorem duplicate_fix_renames_every_occurrence:
  assumes "canAutoFix f" and "category f = ''Duplicate ID''"
    and "i < length (rows_of data (entityType f))"
  shows "length (rows_of (autoFixIssue B data f) (entityType f)) = length (rows_of data (entityType f)) \<and>
         get (rows_of (autoFixIssue B data f) (entityType f) ! i) (idField (entityType f)) =
           (if strict_eq (get (rows_of data (entityType f) ! i) (idField (entityType f))) (entityId f)
            then JStr (toString B (entityId f) @ ''_'' @ show_nat (i + 1))
            else get (rows_of data (entityType f) ! i) (idField (entityType f))) \<and>
         \<not> strict_eq (get (rows_of (autoFixIssue B data f) (entityType f) ! i) (idField (entityType f)))
              (entityId f) \<and>
         (\<forall>g. g \<noteq> idField (entityType f) \<longrightarrow>
              get (rows_of (autoFixIssue B data f) (entityType f) ! i) g
                = get (rows_of data (entityType f) ! i) g)"
proof -
  let ?rows = "rows_of data (entityType f)"
  let ?idf = "idField (entityType f)"
  let ?new = "JStr (toString B (entityId f) @ ''_'' @ show_nat (i + 1))"
  note fx = autoFixIssue_duplicate [OF assms(1,2), of B data]
  have len: "length (rows_of (autoFixIssue B data f) (entityType f)) = length ?rows"
    by (simp add: fx)
  have nth: "rows_of (autoFixIssue B data f) (entityType f) ! i =
          (if strict_eq (get (?rows ! i) ?idf) (entityId f) then put ?idf ?new (?rows ! i)
           else ?rows ! i)"
    using assms(3) by (simp add: fx nth_enumerate_eq)
  show ?thesis
  proof (cases "strict_eq (get (?rows ! i) ?idf) (entityId f)")
    case True
    then show ?thesis
      using renamed_not_offending [of B "entityId f" "show_nat (i + 1)"]
      by (simp add: len nth get_put)
  next
    case False
    then show ?thesis
      by (simp add: len nth)
  qed
qed

text \<open>
  Claim C3, as stated, fails: of two workers sharing \<^verbatim>\<open>W1\<close> the first becomes
  \<^verbatim>\<open>W1_1\<close>; it does not stay \<^verbatim>\<open>W1\<close>. The second becomes \<^verbatim>\<open>W1_2\<close>.
\<close>

theorem duplicate_fix_renames_first:
  "validateDuplicateIDs Workers (workers twin_store) = [twin_finding] \<and>
   map (\<lambda>w. get w ''WorkerID'') (workers twin_store) = [JStr ''W1'', JStr ''W1''] \<and>
   map (\<lambda>w. get w ''WorkerID'') (workers (autoFixIssue std_builtins twin_store twin_finding))
     = [JStr ''W1_1'', JStr ''W1_2'']"
  by (intro conjI) code_simp+

text \<open>The amended claim C3 at the first of the two workers.\<close>

theorem duplicate_fix_renames_every_occurrence_witness:
  "canAutoFix twin_finding \<and> category twin_finding = ''Duplicate ID'' \<and>
   0 < length (rows_of twin_store (entityType twin_finding)) \<and>
   strict_eq (get (rows_of twin_store (entityType twin_finding) ! 0) ''WorkerID'') (entityId twin_finding) \<and>
   get (rows_of (autoFixIssue std_builtins twin_store twin_finding) (entityType twin_finding) ! 0) ''WorkerID''
     = JStr ''W1_1'' \<and>
   get (rows_of (autoFixIssue std_builtins twin_store twin_finding) (entityType twin_finding) ! 0) ''WorkerName''
     = JStr ''Ann''"
proof -
  have c: "canAutoFix twin_finding" by code_simp
  have k: "category twin_finding = ''Duplicate ID''" by code_simp
  have l: "0 < length (rows_of twin_store (entityType twin_finding))" by code_simp
  have e: "strict_eq (get (rows_of twin_store (entityType twin_finding) ! 0) ''WorkerID'') (entityId twin_finding)"
    by code_simp
  have i: "idField (entityType twin_finding) = ''WorkerID''" by code_simp
  have t: "toString std_builtins (entityId twin_finding) @ ''_'' @ show_nat (0 + 1) = ''W1_1''" by code_simp
  have n: "get (rows_of twin_store (entityType twin_finding) ! 0) ''WorkerName'' = JStr ''Ann''" by code_simp
  have d: "''WorkerName'' \<noteq> ''WorkerID''" by simp
  from duplicate_fix_renames_every_occurrence [OF c k l, of std_builtins]
  have "get (rows_of (autoFixIssue std_builtins twin_store twin_finding) (entityType twin_finding) ! 0) ''WorkerID''
          = JStr ''W1_1''"
    and "get (rows_of (autoFixIssue std_builtins twin_store twin_finding) (entityType twin_finding) ! 0) ''WorkerName''
          = JStr ''Ann''"
    using e t n d unfolding i by simp_all
  with c k l e show ?thesis by (intro conjI)
qed

text \<open>\<^verbatim>\<open>autoFixIssue\<close> has no branch for the category Unknown Reference.\<close>

lemma unknown_reference_fix_changes_nothing:
  "category f = ''Unknown Reference'' \<Longrightarrow> autoFixIssue B data f = data"
  by (simp add: autoFixIssue_def Let_def)

text \<open>
  Claim C2 at a failing input. Acme requests \<^verbatim>\<open>T1,T9\<close> and there is no task \<^verbatim>\<open>T9\<close>:
  validation reports an Unknown Reference finding marked auto-fixable, the auto-fix for it
  returns the store unchanged, and validation of that store reports the same finding again.
\<close>

theorem unknown_reference_survives_fix:
  "runValidation std_builtins dangling_store
     = Inr [dangling_finding,
            \<lparr>severity = Info, category = ''AI Insight'', entityType = Workers,
             entityId = JStr ''analysis'', field = None, canAutoFix = False\<rparr>] \<and>
   canAutoFix dangling_finding \<and>
   autoFixIssue std_builtins dangling_store dangling_finding = dangling_store \<and>
   runValidation std_builtins (autoFixIssue std_builtins dangling_store dangling_finding)
     = Inr [dangling_finding,
            \<lparr>severity = Info, category = ''AI Insight'', entityType = Workers,
             entityId = JStr ''analysis'', field = None, canAutoFix = False\<rparr>]"
  by (intro conjI) code_simp+

text \<open>
  Claim C5 at a failing input. Validation reports the priority levels \<^verbatim>\<open>"0"\<close> and
  \<^verbatim>\<open>"9"\<close> as out of range. The fix for \<^verbatim>\<open>"9"\<close> stores 5, the nearest bound; the fix
  for \<^verbatim>\<open>"0"\<close> stores the default 3 and not the nearest bound 1, because
  \<^verbatim>\<open>parseInt(v) || 3\<close> takes the parsed 0 for an unparsable value.
\<close>

theorem zero_priority_fixed_to_default:
  "validateDataTypes std_builtins Clients (clients priority_store)
     = [out_of_range Clients (JStr ''C2'') ''PriorityLevel'',
        out_of_range Clients (JStr ''C3'') ''PriorityLevel''] \<and>
   map (\<lambda>c. get c ''PriorityLevel'')
     (clients (autoFixIssue std_builtins priority_store
                 (out_of_range Clients (JStr ''C3'') ''PriorityLevel'')))
     = [JStr ''0'', JNum (Fin 5)] \<and>
   map (\<lambda>c. get c ''PriorityLevel'')
     (clients (autoFixIssue std_builtins priority_store
                 (out_of_range Clients (JStr ''C2'') ''PriorityLevel'')))
     = [JNum (Fin 3), JStr ''9'']"
  by (intro conjI) code_simp+

text \<open>
  A zero capacity is itself out of range: validation reports Zed's \<^verbatim>\<open>"0"\<close>, and the fix
  stores 1.
\<close>

lemma zero_capacity_repaired_to_one:
  "validateDataTypes std_builtins Workers (workers zero_capacity_csv_store)
     = [out_of_range Workers (JStr ''W3'') ''MaxLoadPerPhase''] \<and>
   map (\<lambda>w. get w ''MaxLoadPerPhase'')
     (workers (autoFixIssue std_builtins zero_capacity_csv_store
                 (out_of_range Workers (JStr ''W3'') ''MaxLoadPerPhase'')))
     = [JNum (Fin 1)]"
  by (intro conjI) code_simp+

text \<open>
  Claim C9 at a failing input. For a worker whose \<open>Skills\<close> is the number 7 the skill
  coverage check calls \<^verbatim>\<open>split\<close> on a number, and the battery ends with a
  \<^verbatim>\<open>TypeError\<close> instead of a list of findings.
\<close>

theorem validation_throws_on_numeric_skills:
  "runValidation std_builtins sheet_store = Inl TypeError"
  by code_simp

text \<open>
  What the range fix stores, for every record: the parsed value clamped to its bounds when
  it parses to a number other than 0, and the default when it does not parse or parses
  to 0.
\<close>

lemma num_or_cases: "num_or n d = (if n = NaN \<or> n = Fin 0 then d else n)"
  by (simp add: num_or_def)

lemma fix_range_priority_clamps:
  assumes "parseInt B (get item ''PriorityLevel'') = Fin n" and "n \<noteq> 0"
  shows "get (fix_range B ''PriorityLevel'' item) ''PriorityLevel'' = JNum (Fin (max 1 (min 5 n)))"
  using assms
  by (auto simp: fix_range_def get_put num_or_cases Math_min_def Math_max_def min_def max_def)

lemma fix_range_priority_default:
  assumes "parseInt B (get item ''PriorityLevel'') = NaN \<or> parseInt B (get item ''PriorityLevel'') = Fin 0"
  shows "get (fix_range B ''PriorityLevel'' item) ''PriorityLevel'' = JNum (Fin 3)"
  using assms
  by (auto simp: fix_range_def get_put num_or_cases Math_min_def Math_max_def)

lemma fix_range_at_least_one:
  assumes "f = ''Duration'' \<or> f = ''MaxLoadPerPhase''"
  shows "parseInt B (get item f) = Fin n \<Longrightarrow> get (fix_range B f item) f = JNum (Fin (max 1 n))"
    and "parseInt B (get item f) = NaN \<Longrightarrow> get (fix_range B f item) f = JNum (Fin 1)"
  using assms
  by (auto simp: fix_range_def get_put num_or_cases Math_max_def max_def)

text \<open>
  The battery returns its findings for every store in which each \<open>RequestedTaskIDs\<close>,
  \<open>Skills\<close> and \<open>RequiredSkills\<close> is a string or not truthy; only a truthy value that is
  no string makes it throw.
\<close>

lemma mapE_returns:
  "(\<And>x. x \<in> set xs \<Longrightarrow> \<exists>y. f x = Inr y) \<Longrightarrow> \<exists>ys. mapE f xs = Inr ys"
proof (induction xs)
  case Nil
  then show ?case by simp
next
  case (Cons x xs)
  obtain y where "f x = Inr y" using Cons.prems by auto
  moreover obtain ys where "mapE f xs = Inr ys" using Cons by auto
  ultimately show ?case by simp
qed

lemma splittable_call_split:
  "splittable v \<Longrightarrow> truthy v \<Longrightarrow> \<exists>parts. call_split v = Inr parts"
  by (cases v) (auto simp: splittable_def)

lemma in_enumerate_snd: "ic \<in> set (enumerate n xs) \<Longrightarrow> snd ic \<in> set xs"
  by (cases ic) (auto simp: in_set_enumerate_eq)

lemma validateReferences_returns:
  assumes "list_all (\<lambda>c. splittable (get c ''RequestedTaskIDs'')) (clients data)"
  shows "\<exists>fs. validateReferences data = Inr fs"
proof -
  let ?ids = "filter truthy (map (\<lambda>t. get t ''TaskID'') (tasks data))"
  have "\<exists>ys. mapE (validateReferences_client ?ids) (enumerate 0 (clients data)) = Inr ys"
  proof (rule mapE_returns)
    fix ic assume "ic \<in> set (enumerate 0 (clients data))"
    then have "splittable (get (snd ic) ''RequestedTaskIDs'')"
      using assms in_enumerate_snd by (fastforce simp: list_all_iff)
    then show "\<exists>y. validateReferences_client ?ids ic = Inr y"
      using splittable_call_split [of "get (snd ic) ''RequestedTaskIDs''"]
      by (cases ic) (auto simp: validateReferences_client_def)
  qed
  then show ?thesis by (auto simp: validateReferences_def Let_def)
qed

lemma skill_list_returns:
  "splittable v \<Longrightarrow> truthy v \<Longrightarrow> \<exists>ss. skill_list v = Inr ss"
  using splittable_call_split [of v] by (auto simp: skill_list_def)

lemma validateSkillCoverage_returns:
  assumes "list_all (\<lambda>w. splittable (get w ''Skills'')) (workers data)"
    and "list_all (\<lambda>t. splittable (get t ''RequiredSkills'')) (tasks data)"
  shows "\<exists>fs. validateSkillCoverage data = Inr fs"
proof -
  let ?f = "\<lambda>worker. if truthy (get worker ''Skills'') then skill_list (get worker ''Skills'') else Inr []"
  have "\<exists>ys. mapE ?f (workers data) = Inr ys"
  proof (rule mapE_returns)
    fix w assume "w \<in> set (workers data)"
    then have "splittable (get w ''Skills'')" using assms(1) by (simp add: list_all_iff)
    then show "\<exists>y. ?f w = Inr y" using skill_list_returns by auto
  qed
  then obtain skills where s: "mapE ?f (workers data) = Inr skills" by blast
  have "\<exists>ys. mapE (validateSkillCoverage_task (concat skills)) (enumerate 0 (tasks data)) = Inr ys"
  proof (rule mapE_returns)
    fix it assume "it \<in> set (enumerate 0 (tasks data))"
    then have "splittable (get (snd it) ''RequiredSkills'')"
      using assms(2) in_enumerate_snd by (fastforce simp: list_all_iff)
    then show "\<exists>y. validateSkillCoverage_task (concat skills) it = Inr y"
      using skill_list_returns [of "get (snd it) ''RequiredSkills''"]
      by (cases it) (auto simp: validateSkillCoverage_task_def)
  qed
  then show ?thesis using s by (auto simp: validateSkillCoverage_def)
qed

lemma generateAISuggestions_returns:
  assumes "list_all (\<lambda>w. splittable (get w ''Skills'')) (workers data)"
  shows "\<exists>fs. generateAISuggestions B data = Inr fs"
proof -
  let ?f = "\<lambda>w. if truthy (get w ''Skills'')
                 then (case call_split (get w ''Skills'') of
                         Inl e \<Rightarrow> Inl e
                       | Inr parts \<Rightarrow> Inr (length parts \<le> 2))
                 else Inr True"
  have "\<exists>ys. mapE ?f (workers data) = Inr ys"
  proof (rule mapE_returns)
    fix w assume "w \<in> set (workers data)"
    then have "splittable (get w ''Skills'')" using assms by (simp add: list_all_iff)
    then show "\<exists>y. ?f w = Inr y"
      using splittable_call_split [of "get w ''Skills''"] by auto
  qed
  then obtain low where "mapE ?f (workers data) = Inr low" by blast
  then show ?thesis by (simp add: generateAISuggestions_def Let_def)
qed

lemma validation_returns_on_string_cells:
  assumes "list_all (\<lambda>c. splittable (get c ''RequestedTaskIDs'')) (clients data)"
    and "list_all (\<lambda>w. splittable (get w ''Skills'')) (workers data)"
    and "list_all (\<lambda>t. splittable (get t ''RequiredSkills'')) (tasks data)"
  shows "\<exists>fs. runValidation B data = Inr fs"
proof -
  obtain refs where "validateReferences data = Inr refs"
    using validateReferences_returns [OF assms(1)] by blast
  moreover obtain coverage where "validateSkillCoverage data = Inr coverage"
    using validateSkillCoverage_returns [OF assms(2,3)] by blast
  moreover obtain insights where "generateAISuggestions B data = Inr insights"
    using generateAISuggestions_returns [OF assms(2)] by blast
  ultimately show ?thesis by (simp add: runValidation_def Let_def)
qed

end
